theory Spec2Isabelle
  imports Main "HOL-Library.Word"
begin

section \<open>The JSON writer of library/json/writer/json.h\<close>

text \<open>
  The header declares the incremental JSON writer \<open>NJsonWriter::TBuf\<close>, the snapshot
  struct \<open>TBufState\<close> and the handle classes \<open>TValueWriter\<close>, \<open>TValueContext\<close>,
  \<open>TAfterColonContext\<close> and \<open>TPairContext\<close> that the writer's operations return.
  The handle classes, \<open>KeyExpected\<close>, the two setters and all default arguments are
  defined in the header and are embedded from it. The bodies of the other member
  functions of \<open>TBuf\<close> are not part of the header; where a property needs one, the
  definition is marked as modelled from the specification.
\<close>

subsection \<open>Data model\<close>

text \<open>\<open>enum EJsonEntity : ui8\<close>, header lines 17 to 22.\<close>

datatype EJsonEntity = JE_OUTER_SPACE | JE_LIST | JE_OBJECT | JE_PAIR

text \<open>\<open>enum EHtmlEscapeMode\<close>, header lines 24 to 29.\<close>

datatype EHtmlEscapeMode = HEM_ESCAPE_HTML | HEM_DONT_ESCAPE_HTML | HEM_RELAXED | HEM_UNSAFE

text \<open>\<open>class TError: public yexception\<close>: the one error the writer raises.\<close>

datatype TError = TError

text \<open>
  Modelled from the spec: \<open>EFloatToStringMode\<close> is declared in util/string/cast.h, which
  is not among the sources. The header names its member \<open>PREC_NDIGITS\<close>; the
  specification speaks of a fixed-digit-count mode and a shortest-round-trippable mode.
\<close>

datatype EFloatToStringMode = PREC_AUTO | PREC_NDIGITS

text \<open>
  \<open>struct TBufState\<close>, header lines 37 to 41. The vector is a list whose last element is
  \<open>Stack.back()\<close>.
\<close>

record TBufState =
  NeedComma :: bool
  NeedNewline :: bool
  Stack :: "EJsonEntity list"

text \<open>
  The data members of \<open>class TBuf\<close>, header lines 145 to 156. The class repeats the three
  members of \<open>TBufState\<close> under the same names, so the record extends the snapshot's.
  \<open>Stream\<close> holds the bytes received so far by the stream the pointer refers to, and
  \<open>StringStream\<close> tells whether the holder owns that stream (no stream was passed to the
  constructor) or is empty.
\<close>

record TBuf = TBufState +
  Stream :: string
  StringStream :: bool
  Keys :: "string list"
  EscapeMode :: EHtmlEscapeMode
  IndentSpaces :: int
  WriteNanAsString :: bool

subsection \<open>Members defined in the header\<close>

text \<open>
  \<open>bool KeyExpected() const { return Stack.back() == JE_OBJECT; }\<close>
  \<open>back()\<close> of an empty vector has no defined result: the model gives \<open>None\<close> there. The
  method is \<open>const\<close>; \<open>KeyExpected_call\<close> is the call in state-passing form, returning the
  writer it leaves behind beside the result.
\<close>

definition KeyExpected :: "'a TBufState_scheme \<Rightarrow> bool option" where
  "KeyExpected b = (if Stack b = [] then None else Some (last (Stack b) = JE_OBJECT))"

definition KeyExpected_call :: "TBuf \<Rightarrow> bool option \<times> TBuf" where
  "KeyExpected_call b = (KeyExpected b, b)"

text \<open>\<open>void SetIndentSpaces(int spaces) { IndentSpaces = spaces; }\<close>\<close>

definition SetIndentSpaces :: "TBuf \<Rightarrow> int \<Rightarrow> TBuf" where
  "SetIndentSpaces b spaces = b\<lparr>IndentSpaces := spaces\<rparr>"

text \<open>
  \<open>void SetWriteNanAsString(bool writeNanAsString = true)\<close>: the argument may be left
  out, and is \<open>true\<close> then.
\<close>

definition SetWriteNanAsString :: "TBuf \<Rightarrow> bool option \<Rightarrow> TBuf" where
  "SetWriteNanAsString b writeNanAsString =
     b\<lparr>WriteNanAsString := (case writeNanAsString of None \<Rightarrow> True | Some v \<Rightarrow> v)\<rparr>"

subsection \<open>Default arguments\<close>

text \<open>
  A call may leave out trailing arguments that have a default. An argument left out is
  \<open>None\<close>; the functions below give the values the callee receives. A stream pointer
  is \<open>None\<close> for \<open>nullptr\<close> and \<open>Some a\<close> for the address \<open>a\<close> of a stream.

  \<open>TBuf(EHtmlEscapeMode mode = HEM_DONT_ESCAPE_HTML, IOutputStream* stream = nullptr);\<close>
\<close>

definition TBuf_args ::
  "EHtmlEscapeMode option \<Rightarrow> nat option option \<Rightarrow> EHtmlEscapeMode \<times> nat option" where
  "TBuf_args mode stream =
     ((case mode of None \<Rightarrow> HEM_DONT_ESCAPE_HTML | Some m \<Rightarrow> m),
      (case stream of None \<Rightarrow> None | Some p \<Rightarrow> p))"

text \<open>
  \<open>TValueContext WriteFloat(float f, EFloatToStringMode mode = PREC_NDIGITS, int ndigits = 6);\<close>
\<close>

definition WriteFloat_args ::
  "EFloatToStringMode option \<Rightarrow> int option \<Rightarrow> EFloatToStringMode \<times> int" where
  "WriteFloat_args mode ndigits =
     ((case mode of None \<Rightarrow> PREC_NDIGITS | Some m \<Rightarrow> m),
      (case ndigits of None \<Rightarrow> 6 | Some n \<Rightarrow> n))"

text \<open>
  \<open>TValueContext WriteDouble(double f, EFloatToStringMode mode = PREC_NDIGITS, int ndigits = 10);\<close>
\<close>

definition WriteDouble_args ::
  "EFloatToStringMode option \<Rightarrow> int option \<Rightarrow> EFloatToStringMode \<times> int" where
  "WriteDouble_args mode ndigits =
     ((case mode of None \<Rightarrow> PREC_NDIGITS | Some m \<Rightarrow> m),
      (case ndigits of None \<Rightarrow> 10 | Some n \<Rightarrow> n))"

subsection \<open>The handle classes\<close>

text \<open>
  The calls that the header's public member functions admit, one constructor per member
  and number of arguments: a member with default arguments gives one call form for
  each number of arguments it may be called with. \<open>M_WriteString_hem\<close> is
  \<open>WriteString(s, hem)\<close>; \<open>M_WriteFloat\<close>, \<open>M_WriteFloat_mode\<close> and
  \<open>M_WriteFloat_mode_ndigits\<close> are \<open>WriteFloat(f)\<close>, \<open>WriteFloat(f, mode)\<close> and
  \<open>WriteFloat(f, mode, ndigits)\<close>; \<open>M_WriteJsonValue_sortKeys\<close> is
  \<open>WriteJsonValue(value, sortKeys)\<close>; \<open>M_SetWriteNanAsString_flag\<close> is
  \<open>SetWriteNanAsString(flag)\<close>; \<open>M_UnsafeWriteValue_len\<close> is \<open>UnsafeWriteValue(s, len)\<close> and
  \<open>M_UnsafeWriteRawBytes_len\<close> is \<open>UnsafeWriteRawBytes(c, len)\<close>. \<open>M_Reset\<close> is
  \<open>Reset(const TBufState&)\<close> and \<open>M_Reset_move\<close> is \<open>Reset(TBufState&&)\<close>; both carry the
  stack of the snapshot they are given.
\<close>

datatype operation =
    M_WriteString | M_WriteString_hem | M_WriteInt | M_WriteLongLong | M_WriteULongLong
  | M_WriteFloat | M_WriteFloat_mode | M_WriteFloat_mode_ndigits
  | M_WriteDouble | M_WriteDouble_mode | M_WriteDouble_mode_ndigits
  | M_WriteBool | M_WriteNull | M_WriteJsonValue | M_WriteJsonValue_sortKeys
  | M_BeginList | M_EndList | M_BeginObject | M_EndObject
  | M_WriteKey | M_WriteKey_hem | M_UnsafeWriteKey | M_CompatWriteKeyWithoutQuotes
  | M_KeyExpected | M_SetIndentSpaces | M_SetWriteNanAsString | M_SetWriteNanAsString_flag
  | M_Str | M_FlushTo
  | M_UnsafeWriteValue | M_UnsafeWriteValue_len | M_UnsafeWritePair
  | M_UnsafeWriteRawBytes | M_UnsafeWriteRawBytes_len | M_State
  | M_Reset "EJsonEntity list" | M_Reset_move "EJsonEntity list"

text \<open>
  What a call returns: a reference to the writer (\<open>TBuf&\<close>), one of the three handle
  classes, or a value that has no writer operations (\<open>void\<close>, \<open>bool\<close>, a string, a
  \<open>TBufState\<close>).
\<close>

datatype receiver =
    TBuf_ref | TValueContext | TPairContext | TAfterColonContext
  | T_void | T_bool | T_TString | T_TBufState

text \<open>
  \<open>template <typename TOutContext> class TValueWriter\<close>, header lines 161 to 210 and 267
  to 275: the calls its member functions admit and what each returns; \<open>None\<close> where the
  class admits no such call. \<open>WriteJsonValue\<close> has a default for \<open>sortKeys\<close>;
  \<open>WriteFloat\<close> and \<open>WriteDouble\<close> are declared with one argument and with three, and
  \<open>UnsafeWriteValue\<close> with a \<open>TStringBuf\<close> only.
\<close>

fun TValueWriter_method :: "receiver \<Rightarrow> operation \<Rightarrow> receiver option" where
  "TValueWriter_method TOutContext M_WriteString_hem = Some TOutContext"
| "TValueWriter_method TOutContext M_WriteNull = Some TOutContext"
| "TValueWriter_method TOutContext M_WriteJsonValue = Some TOutContext"
| "TValueWriter_method TOutContext M_WriteJsonValue_sortKeys = Some TOutContext"
| "TValueWriter_method TOutContext M_WriteString = Some TOutContext"
| "TValueWriter_method TOutContext M_WriteInt = Some TOutContext"
| "TValueWriter_method TOutContext M_WriteLongLong = Some TOutContext"
| "TValueWriter_method TOutContext M_WriteULongLong = Some TOutContext"
| "TValueWriter_method TOutContext M_WriteBool = Some TOutContext"
| "TValueWriter_method TOutContext M_UnsafeWriteValue = Some TOutContext"
| "TValueWriter_method TOutContext M_WriteFloat = Some TOutContext"
| "TValueWriter_method TOutContext M_WriteFloat_mode_ndigits = Some TOutContext"
| "TValueWriter_method TOutContext M_WriteDouble = Some TOutContext"
| "TValueWriter_method TOutContext M_WriteDouble_mode_ndigits = Some TOutContext"
| "TValueWriter_method TOutContext M_BeginList = Some TValueContext"
| "TValueWriter_method TOutContext M_BeginObject = Some TPairContext"
| "TValueWriter_method TOutContext _ = None"

text \<open>
  \<open>class TValueContext: public TValueWriter<TValueContext>\<close>, header lines 212 to 224:
  \<open>EndList\<close> returns \<open>Buf.EndList()\<close>, a \<open>TBuf&\<close>; \<open>Str\<close> returns a string.
\<close>

fun TValueContext_method :: "operation \<Rightarrow> receiver option" where
  "TValueContext_method M_EndList = Some TBuf_ref"
| "TValueContext_method M_Str = Some T_TString"
| "TValueContext_method m = TValueWriter_method TValueContext m"

text \<open>
  \<open>class TAfterColonContext: public TValueWriter<TPairContext>\<close>, header lines 226 to
  231, adds no public member.
\<close>

definition TAfterColonContext_method :: "operation \<Rightarrow> receiver option" where
  "TAfterColonContext_method m = TValueWriter_method TPairContext m"

text \<open>\<open>class TPairContext\<close>, header lines 233 to 265.\<close>

fun TPairContext_method :: "operation \<Rightarrow> receiver option" where
  "TPairContext_method M_WriteKey_hem = Some TAfterColonContext"
| "TPairContext_method M_WriteKey = Some TAfterColonContext"
| "TPairContext_method M_UnsafeWriteKey = Some TAfterColonContext"
| "TPairContext_method M_CompatWriteKeyWithoutQuotes = Some TAfterColonContext"
| "TPairContext_method M_UnsafeWritePair = Some TPairContext"
| "TPairContext_method M_EndObject = Some TBuf_ref"
| "TPairContext_method _ = None"

text \<open>
  The public members of \<open>class TBuf\<close>, header lines 45 to 124. \<open>WriteFloat\<close> and
  \<open>WriteDouble\<close> have defaults for the mode and the digit count, \<open>WriteJsonValue\<close> for
  \<open>sortKeys\<close> and \<open>SetWriteNanAsString\<close> for its flag.
\<close>

fun TBuf_method :: "operation \<Rightarrow> receiver option" where
  "TBuf_method M_WriteString_hem = Some TValueContext"
| "TBuf_method M_WriteString = Some TValueContext"
| "TBuf_method M_WriteInt = Some TValueContext"
| "TBuf_method M_WriteLongLong = Some TValueContext"
| "TBuf_method M_WriteULongLong = Some TValueContext"
| "TBuf_method M_WriteFloat = Some TValueContext"
| "TBuf_method M_WriteFloat_mode = Some TValueContext"
| "TBuf_method M_WriteFloat_mode_ndigits = Some TValueContext"
| "TBuf_method M_WriteDouble = Some TValueContext"
| "TBuf_method M_WriteDouble_mode = Some TValueContext"
| "TBuf_method M_WriteDouble_mode_ndigits = Some TValueContext"
| "TBuf_method M_WriteBool = Some TValueContext"
| "TBuf_method M_WriteNull = Some TValueContext"
| "TBuf_method M_WriteJsonValue = Some TValueContext"
| "TBuf_method M_WriteJsonValue_sortKeys = Some TValueContext"
| "TBuf_method M_BeginList = Some TValueContext"
| "TBuf_method M_EndList = Some TBuf_ref"
| "TBuf_method M_BeginObject = Some TPairContext"
| "TBuf_method M_WriteKey_hem = Some TAfterColonContext"
| "TBuf_method M_WriteKey = Some TAfterColonContext"
| "TBuf_method M_UnsafeWriteKey = Some TAfterColonContext"
| "TBuf_method M_KeyExpected = Some T_bool"
| "TBuf_method M_CompatWriteKeyWithoutQuotes = Some TAfterColonContext"
| "TBuf_method M_EndObject = Some TBuf_ref"
| "TBuf_method M_SetIndentSpaces = Some T_void"
| "TBuf_method M_SetWriteNanAsString = Some T_void"
| "TBuf_method M_SetWriteNanAsString_flag = Some T_void"
| "TBuf_method M_Str = Some T_TString"
| "TBuf_method M_FlushTo = Some T_void"
| "TBuf_method M_UnsafeWriteValue = Some T_void"
| "TBuf_method M_UnsafeWriteValue_len = Some T_void"
| "TBuf_method M_UnsafeWritePair = Some TPairContext"
| "TBuf_method M_UnsafeWriteRawBytes = Some T_void"
| "TBuf_method M_UnsafeWriteRawBytes_len = Some T_void"
| "TBuf_method M_State = Some T_TBufState"
| "TBuf_method (M_Reset from) = Some T_void"
| "TBuf_method (M_Reset_move from) = Some T_void"

text \<open>Member lookup on the static type of the receiver.\<close>

fun member :: "receiver \<Rightarrow> operation \<Rightarrow> receiver option" where
  "member TBuf_ref m = TBuf_method m"
| "member TValueContext m = TValueContext_method m"
| "member TPairContext m = TPairContext_method m"
| "member TAfterColonContext m = TAfterColonContext_method m"
| "member _ m = None"

text \<open>
  A chain of calls \<open>x.m1(...).m2(...)\<close>, each made on what the previous one returned:
  the type of the whole expression, \<open>None\<close> where some call does not compile.
\<close>

fun calls :: "receiver \<Rightarrow> operation list \<Rightarrow> receiver option" where
  "calls r [] = Some r"
| "calls r (m # ms) = (case member r m of None \<Rightarrow> None | Some r' \<Rightarrow> calls r' ms)"

definition is_handle :: "receiver \<Rightarrow> bool" where
  "is_handle r = (r = TValueContext \<or> r = TPairContext \<or> r = TAfterColonContext)"

text \<open>
  A chain threaded purely through handles: every call of it compiles and is made on a
  handle.
\<close>

fun threaded :: "receiver \<Rightarrow> operation list \<Rightarrow> bool" where
  "threaded r [] = True"
| "threaded r (m # ms) =
     (is_handle r \<and> (case member r m of None \<Rightarrow> False | Some r' \<Rightarrow> threaded r' ms))"

subsection \<open>The grammar of the specification\<close>

text \<open>
  The operations of the writer that write one value, in every call form the writer
  admits: those that section 4.1 of the specification lists (the string, integer,
  boolean, null, float and double writers and the value dump) and \<open>UnsafeWriteValue\<close>,
  which by the header's comment writes a literal string that represents a JSON value
  and by section 4.1 does the bookkeeping of its grammar position.
\<close>

definition is_value_write :: "operation \<Rightarrow> bool" where
  "is_value_write m = (m \<in> set [M_WriteString, M_WriteString_hem, M_WriteInt, M_WriteLongLong,
     M_WriteULongLong, M_WriteFloat, M_WriteFloat_mode, M_WriteFloat_mode_ndigits,
     M_WriteDouble, M_WriteDouble_mode, M_WriteDouble_mode_ndigits,
     M_WriteBool, M_WriteNull, M_WriteJsonValue, M_WriteJsonValue_sortKeys,
     M_UnsafeWriteValue, M_UnsafeWriteValue_len])"

text \<open>The operations of the writer that write a key (section 4.1).\<close>

definition is_key_write :: "operation \<Rightarrow> bool" where
  "is_key_write m = (m \<in> set [M_WriteKey, M_WriteKey_hem, M_UnsafeWriteKey,
     M_CompatWriteKeyWithoutQuotes])"

text \<open>
  The specification's rule of which token may come next, as a step on the context
  stack (section 4.1): a value may be written when the top is \<open>OuterSpace\<close>, \<open>List\<close> or
  \<open>Pair\<close>, and closes a pending pair; \<open>BeginList\<close> and \<open>BeginObject\<close> are values that
  push; a key may be written when the top is \<open>Object\<close> and pushes \<open>Pair\<close>; \<open>EndList\<close>
  and \<open>EndObject\<close> need their own kind on top, pop it, and the construct they close
  is a value; \<open>UnsafeWritePair\<close> writes whole pairs where a key is expected. \<open>spec_step\<close>
  is \<open>None\<close> for a token the grammar does not permit. \<open>Reset\<close> puts the stack of the
  snapshot in place (section 4.5). The remaining operations write no token or, for the
  raw bytes, do no bookkeeping, and leave the stack as it is.
\<close>

definition spec_value_allowed :: "EJsonEntity list \<Rightarrow> bool" where
  "spec_value_allowed st = (st \<noteq> [] \<and> last st \<in> set [JE_OUTER_SPACE, JE_LIST, JE_PAIR])"

definition spec_end_value :: "EJsonEntity list \<Rightarrow> EJsonEntity list" where
  "spec_end_value st = (if st \<noteq> [] \<and> last st = JE_PAIR then butlast st else st)"

definition spec_step :: "EJsonEntity list \<Rightarrow> operation \<Rightarrow> EJsonEntity list option" where
  "spec_step st m =
     (if is_value_write m then
        (if spec_value_allowed st then Some (spec_end_value st) else None)
      else if m = M_BeginList then
        (if spec_value_allowed st then Some (st @ [JE_LIST]) else None)
      else if m = M_BeginObject then
        (if spec_value_allowed st then Some (st @ [JE_OBJECT]) else None)
      else if m = M_EndList then
        (if st \<noteq> [] \<and> last st = JE_LIST then Some (spec_end_value (butlast st)) else None)
      else if m = M_EndObject then
        (if st \<noteq> [] \<and> last st = JE_OBJECT then Some (spec_end_value (butlast st)) else None)
      else if is_key_write m then
        (if st \<noteq> [] \<and> last st = JE_OBJECT then Some (st @ [JE_PAIR]) else None)
      else if m = M_UnsafeWritePair then
        (if st \<noteq> [] \<and> last st = JE_OBJECT then Some st else None)
      else (case m of
              M_Reset from \<Rightarrow> Some from
            | M_Reset_move from \<Rightarrow> Some from
            | _ \<Rightarrow> Some st))"

fun spec_run :: "EJsonEntity list \<Rightarrow> operation list \<Rightarrow> EJsonEntity list option" where
  "spec_run st [] = Some st"
| "spec_run st (m # ms) = (case spec_step st m of None \<Rightarrow> None | Some st' \<Rightarrow> spec_run st' ms)"

text \<open>
  What the specification says a handle stands for (section 4.2): a \<open>ValueContext\<close> is
  held at the top level or inside a list, a \<open>PairContext\<close> inside an object where a key
  is expected, an \<open>AfterColonContext\<close> after a key of an object. Only a handle stands for
  a position of the grammar.
\<close>

fun agrees :: "receiver \<Rightarrow> EJsonEntity list \<Rightarrow> bool" where
  "agrees TValueContext st = (st \<noteq> [] \<and> last st \<in> set [JE_OUTER_SPACE, JE_LIST])"
| "agrees TPairContext st = (st \<noteq> [] \<and> last st = JE_OBJECT)"
| "agrees TAfterColonContext st =
     (st \<noteq> [] \<and> last st = JE_PAIR \<and> butlast st \<noteq> [] \<and> last (butlast st) = JE_OBJECT)"
| "agrees _ st = False"

subsection \<open>The escaping engine\<close>

text \<open>
  Modelled from the spec: the header declares \<open>WriteHexEscape(unsigned char c)\<close> without
  a body. Section 4.3 of the specification has a character without a short form escaped
  as \<open>\u00XX\<close>, and the comments of \<open>EHtmlEscapeMode\<close> write the digits in upper case.
  The function gives the bytes written.
\<close>

definition hexDigits :: string where
  "hexDigits = ''0123456789ABCDEF''"

definition WriteHexEscape :: "char \<Rightarrow> string" where
  "WriteHexEscape c =
     [CHR 0x5C, CHR ''u'', CHR ''0'', CHR ''0'',
      hexDigits ! ((of_char c :: nat) div 16), hexDigits ! ((of_char c :: nat) mod 16)]"

text \<open>
  Modelled from the spec: the header declares
  \<open>bool EscapedWriteChar(const char* b, const char* c, EHtmlEscapeMode hem)\<close> without a
  body. The rules are those of section 4.3 of the specification, with the renderings
  that the comments of \<open>EHtmlEscapeMode\<close> list: a double quote and a backslash always
  get a backslash in front; a character below 0x20 is written in its short form where
  one exists and as \<open>\u00XX\<close> otherwise; \<open>/\<close>, \<open><\<close>, \<open>>\<close> and \<open>&\<close> follow the mode;
  every other byte is left alone. The result is \<open>Some\<close> of the bytes written for the
  character at \<open>c\<close> when the function escapes it, and \<open>None\<close> when it does not.
\<close>

definition EscapedWriteChar :: "char \<Rightarrow> EHtmlEscapeMode \<Rightarrow> string option" where
  "EscapedWriteChar c hem =
     (if c = CHR 0x22 then Some [CHR 0x5C, CHR 0x22]
      else if c = CHR 0x5C then Some [CHR 0x5C, CHR 0x5C]
      else if (of_char c :: nat) < 0x20 then
        (if c = CHR 0x0A then Some [CHR 0x5C, CHR ''n'']
         else if c = CHR 0x09 then Some [CHR 0x5C, CHR ''t'']
         else if c = CHR 0x0D then Some [CHR 0x5C, CHR ''r'']
         else if c = CHR 0x08 then Some [CHR 0x5C, CHR ''b'']
         else if c = CHR 0x0C then Some [CHR 0x5C, CHR ''f'']
         else Some (WriteHexEscape c))
      else if c = CHR ''/'' then
        (if hem = HEM_ESCAPE_HTML \<or> hem = HEM_DONT_ESCAPE_HTML then Some [CHR 0x5C, CHR ''/'']
         else None)
      else if c = CHR ''<'' \<or> c = CHR ''>'' \<or> c = CHR ''&'' then
        (case hem of
           HEM_ESCAPE_HTML \<Rightarrow>
             Some (if c = CHR ''<'' then ''&lt;'' else if c = CHR ''>'' then ''&gt;'' else ''&amp;'')
         | HEM_DONT_ESCAPE_HTML \<Rightarrow> Some (WriteHexEscape c)
         | HEM_RELAXED \<Rightarrow> Some (WriteHexEscape c)
         | HEM_UNSAFE \<Rightarrow> None)
      else None)"

text \<open>
  Modelled from the spec: the header declares
  \<open>WriteBareString(const TStringBuf s, EHtmlEscapeMode hem)\<close> without a body.
  \<open>escape_char\<close> is what the engine writes for one character, \<open>bare_string\<close> the body
  of the string literal, character by character; the writer puts it between quotes
  (\<open>WriteBareString\<close> below).
\<close>

definition escape_char :: "EHtmlEscapeMode \<Rightarrow> char \<Rightarrow> string" where
  "escape_char hem c = (case EscapedWriteChar c hem of None \<Rightarrow> [c] | Some e \<Rightarrow> e)"

definition bare_string :: "string \<Rightarrow> EHtmlEscapeMode \<Rightarrow> string" where
  "bare_string s hem = concat (map (escape_char hem) s)"

subsection \<open>Reading a string literal back\<close>















subsection \<open>The core writer\<close>

text \<open>
  Modelled from the spec: the constructor \<open>TBuf(mode, stream)\<close> has no body in the
  header. By section 3 of the specification a writer is created with the stack
  \<open>[OuterSpace]\<close> and no pending separator; by the header's comments no indentation
  is done and a non-finite number raises by default; the writer owns its internal buffer
  exactly when no stream was supplied. The stream argument is \<open>None\<close> for \<open>nullptr\<close>
  and otherwise the bytes the supplied stream has received so far.
\<close>

definition TBuf_new :: "EHtmlEscapeMode \<Rightarrow> string option \<Rightarrow> TBuf" where
  "TBuf_new mode stream =
     \<lparr>NeedComma = False, NeedNewline = False, Stack = [JE_OUTER_SPACE],
      Stream = (case stream of None \<Rightarrow> [] | Some received \<Rightarrow> received),
      StringStream = (stream = None), Keys = [], EscapeMode = mode, IndentSpaces = 0,
      WriteNanAsString = False\<rparr>"

text \<open>
  Modelled from the spec: \<open>UnsafeWriteRawBytes\<close> and \<open>RawWriteChar\<close> have no body in the
  header. The header's comment: copy the supplied string directly into the output
  stream; the specification: no bookkeeping at all.
\<close>

definition UnsafeWriteRawBytes :: "TBuf \<Rightarrow> string \<Rightarrow> TBuf" where
  "UnsafeWriteRawBytes b s = b\<lparr>Stream := Stream b @ s\<rparr>"

definition RawWriteChar :: "TBuf \<Rightarrow> char \<Rightarrow> TBuf" where
  "RawWriteChar b c = b\<lparr>Stream := Stream b @ [c]\<rparr>"

text \<open>
  Modelled from the spec: \<open>StackPush\<close> and \<open>StackTop\<close> have no body in the header; the
  stack grows and is read at its back, as \<open>KeyExpected\<close> reads it.
\<close>

definition StackPush :: "TBuf \<Rightarrow> EJsonEntity \<Rightarrow> TBuf" where
  "StackPush b e = b\<lparr>Stack := Stack b @ [e]\<rparr>"

definition StackTop :: "TBuf \<Rightarrow> EJsonEntity option" where
  "StackTop b = (if Stack b = [] then None else Some (last (Stack b)))"

text \<open>
  Modelled from the spec: \<open>PrintIndentation(bool closing)\<close> has no body in the header.
  Section 4.1 of the specification: with a positive indent width a newline and stack
  depth times the width spaces are written; nothing is written before the bracket that
  closes an empty construct. The depth is the number of entries above \<open>OuterSpace\<close>;
  a construct is empty when no separator is pending where it is closed.
\<close>

definition PrintIndentation :: "TBuf \<Rightarrow> bool \<Rightarrow> TBuf" where
  "PrintIndentation b closing =
     (if IndentSpaces b \<le> 0 \<or> (closing \<and> \<not> NeedComma b) then b
      else UnsafeWriteRawBytes b
             (CHR 0x0A # replicate ((length (Stack b) - 1) * nat (IndentSpaces b)) (CHR '' '')))"

text \<open>
  Modelled from the spec: \<open>WriteComma\<close> has no body in the header. Section 4.1 and the
  glossary of the specification: the pending comma and the pending newline tell whether
  the next token must be preceded by a comma and by indentation; after a token both are
  pending.
\<close>

definition WriteComma :: "TBuf \<Rightarrow> TBuf" where
  "WriteComma b =
     (let b1 = (if NeedComma b then RawWriteChar b (CHR '','') else b);
          b2 = (if NeedNewline b1 then PrintIndentation b1 False else b1)
      in b2\<lparr>NeedComma := True, NeedNewline := True\<rparr>)"

text \<open>
  Modelled from the spec: \<open>BeginValue\<close> has no body in the header. Section 4.1 of the
  specification: writing a value while a key is expected fails with the grammar error;
  otherwise the separator is written. A writer whose stack is empty has no top to
  examine; the model lets the call fail there.
\<close>

definition BeginValue :: "TBuf \<Rightarrow> TError + TBuf" where
  "BeginValue b =
     (case KeyExpected b of
        Some False \<Rightarrow> Inr (WriteComma b)
      | _ \<Rightarrow> Inl TError)"

text \<open>
  Modelled from the spec: \<open>BeginKey\<close> has no body in the header. Section 4.1 of the
  specification: a key is legal only when the top is \<open>Object\<close>; it pushes \<open>Pair\<close>, and
  the value after the colon is the first token of the pair, so no separator is pending.
\<close>

definition BeginKey :: "TBuf \<Rightarrow> TError + TBuf" where
  "BeginKey b =
     (case KeyExpected b of
        Some True \<Rightarrow>
          Inr ((StackPush (WriteComma b) JE_PAIR)\<lparr>NeedComma := False, NeedNewline := False\<rparr>)
      | _ \<Rightarrow> Inl TError)"

text \<open>
  Modelled from the spec: \<open>StackPop\<close> has no body in the header. Section 4.1 of the
  specification: closing a list or an object pops its entry and writes the bracket,
  a pair is popped without output, and nothing can be closed at \<open>OuterSpace\<close>. What was
  closed is a token of the enclosing construct, so both separators are pending after it.
\<close>

definition StackPop :: "TBuf \<Rightarrow> TError + TBuf" where
  "StackPop b =
     (case StackTop b of
        None \<Rightarrow> Inl TError
      | Some JE_OUTER_SPACE \<Rightarrow> Inl TError
      | Some JE_LIST \<Rightarrow>
          Inr ((RawWriteChar (PrintIndentation (b\<lparr>Stack := butlast (Stack b)\<rparr>) True)
                  (CHR '']''))\<lparr>NeedComma := True, NeedNewline := True\<rparr>)
      | Some JE_OBJECT \<Rightarrow>
          Inr ((RawWriteChar (PrintIndentation (b\<lparr>Stack := butlast (Stack b)\<rparr>) True)
                  (CHR ''}''))\<lparr>NeedComma := True, NeedNewline := True\<rparr>)
      | Some JE_PAIR \<Rightarrow>
          Inr (b\<lparr>Stack := butlast (Stack b), NeedComma := True, NeedNewline := True\<rparr>))"

text \<open>
  Modelled from the spec: \<open>CheckAndPop(EJsonEntity e)\<close> has no body in the header.
  Section 4.1 of the specification: \<open>EndList\<close> requires that the top is exactly \<open>List\<close>
  and \<open>EndObject\<close> that it is \<open>Object\<close>; a mismatched call fails.
\<close>

definition CheckAndPop :: "TBuf \<Rightarrow> EJsonEntity \<Rightarrow> TError + TBuf" where
  "CheckAndPop b e = (if StackTop b \<noteq> Some e then Inl TError else StackPop b)"

text \<open>
  Modelled from the spec: \<open>EndValue\<close> has no body in the header. Section 4.1 of the
  specification: writing the value that follows a key pops \<open>Pair\<close> back to \<open>Object\<close>.
\<close>

definition EndValue :: "TBuf \<Rightarrow> TError + TBuf" where
  "EndValue b = (if StackTop b = Some JE_PAIR then StackPop b else Inr b)"

text \<open>
  Modelled from the spec: \<open>WriteBareString\<close> has no body in the header. Section 4.3 of
  the specification: the engine produces the body and the writer wraps it in quotes.
\<close>

definition WriteBareString :: "TBuf \<Rightarrow> string \<Rightarrow> EHtmlEscapeMode \<Rightarrow> TBuf" where
  "WriteBareString b s hem =
     RawWriteChar (UnsafeWriteRawBytes (RawWriteChar b (CHR 0x22)) (bare_string s hem)) (CHR 0x22)"

text \<open>
  Modelled from the spec: the two overloads of \<open>WriteString\<close> have no body in the header.
  Section 4.1 of the specification: a value-writing operation, delegating to the
  escaping engine with the mode of the call or the mode configured for the writer.
\<close>

definition WriteString_hem :: "TBuf \<Rightarrow> string \<Rightarrow> EHtmlEscapeMode \<Rightarrow> TError + TBuf" where
  "WriteString_hem b s hem =
     (case BeginValue b of
        Inl e \<Rightarrow> Inl e
      | Inr b1 \<Rightarrow> EndValue (WriteBareString b1 s hem))"

definition WriteString :: "TBuf \<Rightarrow> string \<Rightarrow> TError + TBuf" where
  "WriteString b s = WriteString_hem b s (EscapeMode b)"

text \<open>
  Modelled from the spec: \<open>UnsafeWriteValue\<close> has no body in the header. Section 4.1 of
  the specification: the bytes supplied are written as they are, after the bookkeeping
  of a value.
\<close>

definition UnsafeWriteValue :: "TBuf \<Rightarrow> string \<Rightarrow> TError + TBuf" where
  "UnsafeWriteValue b s =
     (case BeginValue b of
        Inl e \<Rightarrow> Inl e
      | Inr b1 \<Rightarrow> EndValue (UnsafeWriteRawBytes b1 s))"

text \<open>
  Modelled from the spec: \<open>ToString\<close> of util/string/cast.h is not among the sources.
  Section 4.4 of the specification: an integer renders as its canonical decimal text.
\<close>

fun digits :: "nat \<Rightarrow> string" where
  "digits n =
     (if n < 10 then [char_of (48 + n)] else digits (n div 10) @ [char_of (48 + n mod 10)])"

declare digits.simps [simp del]

definition ToString :: "int \<Rightarrow> string" where
  "ToString i = (if i < 0 then CHR ''-'' # digits (nat (- i)) else digits (nat i))"

text \<open>
  Modelled from the spec: \<open>WriteInt\<close>, \<open>WriteLongLong\<close>, \<open>WriteULongLong\<close>, \<open>WriteBool\<close>
  and \<open>WriteNull\<close> have no body in the header. Section 4.1 of the specification: they
  are value-writing operations; section 4.4: the integers are signed or unsigned per
  call. An \<open>int\<close> has 32 bits and a \<open>long long\<close> 64.
\<close>

definition WriteInt :: "TBuf \<Rightarrow> 32 word \<Rightarrow> TError + TBuf" where
  "WriteInt b i = UnsafeWriteValue b (ToString (sint i))"

definition WriteLongLong :: "TBuf \<Rightarrow> 64 word \<Rightarrow> TError + TBuf" where
  "WriteLongLong b i = UnsafeWriteValue b (ToString (sint i))"

definition WriteULongLong :: "TBuf \<Rightarrow> 64 word \<Rightarrow> TError + TBuf" where
  "WriteULongLong b i = UnsafeWriteValue b (ToString (uint i))"

definition WriteBool :: "TBuf \<Rightarrow> bool \<Rightarrow> TError + TBuf" where
  "WriteBool b v = UnsafeWriteValue b (if v then ''true'' else ''false'')"

definition WriteNull :: "TBuf \<Rightarrow> TError + TBuf" where
  "WriteNull b = UnsafeWriteValue b ''null''"

text \<open>
  A \<open>float\<close> or \<open>double\<close> argument: a finite value, given by a mantissa and a binary
  exponent, or one of the three values that are not finite.
\<close>

datatype TFloat = Finite int int | NaN | PosInf | NegInf

definition IsValidFloat :: "TFloat \<Rightarrow> bool" where
  "IsValidFloat f = (case f of Finite m e \<Rightarrow> True | _ \<Rightarrow> False)"

text \<open>
  Modelled from the spec: \<open>FloatToString\<close> of util/string/cast.h is not among the sources.
  Section 4.4 of the specification names the renderings of the values that are not
  finite: \<open>nan\<close>, \<open>inf\<close> and \<open>-inf\<close>. The rendering of a finite value is the parameter
  \<open>fmt\<close>.
\<close>

fun FloatToString ::
  "(int \<Rightarrow> int \<Rightarrow> EFloatToStringMode \<Rightarrow> int \<Rightarrow> string) \<Rightarrow>
     TFloat \<Rightarrow> EFloatToStringMode \<Rightarrow> int \<Rightarrow> string" where
  "FloatToString fmt (Finite m e) mode ndigits = fmt m e mode ndigits"
| "FloatToString fmt NaN mode ndigits = ''nan''"
| "FloatToString fmt PosInf mode ndigits = ''inf''"
| "FloatToString fmt NegInf mode ndigits = ''-inf''"

text \<open>
  Modelled from the spec: \<open>WriteFloatImpl\<close> has no body in the header. Section 4.4 of the
  specification and the header's comment on \<open>SetWriteNanAsString\<close>: a value that is not
  finite raises the error when the policy is off and is written as a string when it is
  on; a finite value is written as a number token.
\<close>

definition WriteFloatImpl ::
  "TBuf \<Rightarrow> (int \<Rightarrow> int \<Rightarrow> EFloatToStringMode \<Rightarrow> int \<Rightarrow> string) \<Rightarrow>
     TFloat \<Rightarrow> EFloatToStringMode \<Rightarrow> int \<Rightarrow> TError + TBuf" where
  "WriteFloatImpl b fmt f mode ndigits =
     (if \<not> IsValidFloat f then
        (if WriteNanAsString b then WriteString b (FloatToString fmt f mode ndigits)
         else Inl TError)
      else UnsafeWriteValue b (FloatToString fmt f mode ndigits))"

text \<open>
  Modelled from the spec: \<open>WriteFloat\<close> and \<open>WriteDouble\<close> have no body in the header; the
  header declares \<open>WriteFloatImpl\<close> as the template behind both. The mode and the digit
  count may be left out of the call.
\<close>

definition WriteFloat ::
  "TBuf \<Rightarrow> (int \<Rightarrow> int \<Rightarrow> EFloatToStringMode \<Rightarrow> int \<Rightarrow> string) \<Rightarrow>
     TFloat \<Rightarrow> EFloatToStringMode option \<Rightarrow> int option \<Rightarrow> TError + TBuf" where
  "WriteFloat b fmt f mode ndigits =
     WriteFloatImpl b fmt f (fst (WriteFloat_args mode ndigits)) (snd (WriteFloat_args mode ndigits))"

definition WriteDouble ::
  "TBuf \<Rightarrow> (int \<Rightarrow> int \<Rightarrow> EFloatToStringMode \<Rightarrow> int \<Rightarrow> string) \<Rightarrow>
     TFloat \<Rightarrow> EFloatToStringMode option \<Rightarrow> int option \<Rightarrow> TError + TBuf" where
  "WriteDouble b fmt f mode ndigits =
     WriteFloatImpl b fmt f (fst (WriteDouble_args mode ndigits)) (snd (WriteDouble_args mode ndigits))"

text \<open>
  Modelled from the spec: \<open>BeginList\<close>, \<open>BeginObject\<close>, \<open>EndList\<close> and \<open>EndObject\<close> have no
  body in the header. Section 4.1 of the specification: \<open>BeginList\<close> pushes \<open>List\<close> and
  emits the opening bracket, \<open>EndList\<close> requires \<open>List\<close> on top, pops it and emits the
  closing bracket, and likewise for objects; a construct is a value where it stands, and
  its first token takes no comma.
\<close>

definition BeginList :: "TBuf \<Rightarrow> TError + TBuf" where
  "BeginList b =
     (case BeginValue b of
        Inl e \<Rightarrow> Inl e
      | Inr b1 \<Rightarrow> Inr ((StackPush (RawWriteChar b1 (CHR ''['')) JE_LIST)\<lparr>NeedComma := False\<rparr>))"

definition BeginObject :: "TBuf \<Rightarrow> TError + TBuf" where
  "BeginObject b =
     (case BeginValue b of
        Inl e \<Rightarrow> Inl e
      | Inr b1 \<Rightarrow> Inr ((StackPush (RawWriteChar b1 (CHR ''{'')) JE_OBJECT)\<lparr>NeedComma := False\<rparr>))"

definition EndList :: "TBuf \<Rightarrow> TError + TBuf" where
  "EndList b = (case CheckAndPop b JE_LIST of Inl e \<Rightarrow> Inl e | Inr b1 \<Rightarrow> EndValue b1)"

definition EndObject :: "TBuf \<Rightarrow> TError + TBuf" where
  "EndObject b = (case CheckAndPop b JE_OBJECT of Inl e \<Rightarrow> Inl e | Inr b1 \<Rightarrow> EndValue b1)"

text \<open>
  Modelled from the spec: the key-writing operations have no body in the header.
  Section 4.1 of the specification: \<open>WriteKey\<close> writes the escaped key string followed by
  a colon; \<open>UnsafeWriteKey\<close> does no escaping and \<open>CompatWriteKeyWithoutQuotes\<close> no
  quoting.
\<close>

definition WriteKey_hem :: "TBuf \<Rightarrow> string \<Rightarrow> EHtmlEscapeMode \<Rightarrow> TError + TBuf" where
  "WriteKey_hem b key hem =
     (case BeginKey b of
        Inl e \<Rightarrow> Inl e
      | Inr b1 \<Rightarrow> Inr (RawWriteChar (WriteBareString b1 key hem) (CHR '':'')))"

definition WriteKey :: "TBuf \<Rightarrow> string \<Rightarrow> TError + TBuf" where
  "WriteKey b key = WriteKey_hem b key (EscapeMode b)"

definition UnsafeWriteKey :: "TBuf \<Rightarrow> string \<Rightarrow> TError + TBuf" where
  "UnsafeWriteKey b key =
     (case BeginKey b of
        Inl e \<Rightarrow> Inl e
      | Inr b1 \<Rightarrow>
          Inr (UnsafeWriteRawBytes (UnsafeWriteRawBytes (RawWriteChar b1 (CHR 0x22)) key)
                 [CHR 0x22, CHR '':'']))"

definition CompatWriteKeyWithoutQuotes :: "TBuf \<Rightarrow> string \<Rightarrow> TError + TBuf" where
  "CompatWriteKeyWithoutQuotes b key =
     (case BeginKey b of
        Inl e \<Rightarrow> Inl e
      | Inr b1 \<Rightarrow> Inr (RawWriteChar (UnsafeWriteRawBytes b1 key) (CHR '':'')))"

text \<open>
  Modelled from the spec: \<open>UnsafeWritePair\<close> has no body in the header. The header's
  comment: in the context of an object, write a literal string that represents one or
  several pairs.
\<close>

definition UnsafeWritePair :: "TBuf \<Rightarrow> string \<Rightarrow> TError + TBuf" where
  "UnsafeWritePair b s =
     (case KeyExpected b of
        Some True \<Rightarrow> Inr (UnsafeWriteRawBytes (WriteComma b) s)
      | _ \<Rightarrow> Inl TError)"

text \<open>
  Modelled from the spec: \<open>Str\<close> and \<open>FlushTo\<close> have no body in the header. The header's
  comments and section 4.1 of the specification: either may only be called when no
  stream was supplied at construction and fails otherwise; \<open>FlushTo\<close> writes the bytes
  accumulated so far to the stream it is given and empties the internal buffer. The
  stream argument is the bytes that stream has received so far, and the result holds
  what it has received afterwards.
\<close>

definition Str :: "TBuf \<Rightarrow> TError + string" where
  "Str b = (if StringStream b then Inr (Stream b) else Inl TError)"

definition FlushTo :: "TBuf \<Rightarrow> string \<Rightarrow> TError + TBuf \<times> string" where
  "FlushTo b stream =
     (if StringStream b then Inr (b\<lparr>Stream := []\<rparr>, stream @ Stream b) else Inl TError)"

text \<open>
  Modelled from the spec: \<open>State\<close> and \<open>Reset\<close> have no body in the header. Section 4.5 of
  the specification: \<open>State\<close> returns a copy of the pending-separator flags and the stack,
  and \<open>Reset\<close> replaces the writer's stack and flags with those of the snapshot.
\<close>

definition State :: "TBuf \<Rightarrow> TBufState" where
  "State b = \<lparr>NeedComma = NeedComma b, NeedNewline = NeedNewline b, Stack = Stack b\<rparr>"

definition Reset :: "TBuf \<Rightarrow> TBufState \<Rightarrow> TBuf" where
  "Reset b from =
     b\<lparr>NeedComma := NeedComma from, NeedNewline := NeedNewline from, Stack := Stack from\<rparr>"

text \<open>
  Calls made one after the other on the same writer: the first error ends the sequence,
  as the exception would.
\<close>

definition and_then :: "TError + TBuf \<Rightarrow> (TBuf \<Rightarrow> TError + TBuf) \<Rightarrow> TError + TBuf" where
  "and_then r f = (case r of Inl e \<Rightarrow> Inl e | Inr b \<Rightarrow> f b)"

text \<open>
  A call of one of the modelled operations with its arguments, and a sequence of such
  calls on one writer that ends at the first error. \<open>WriteJsonValue\<close> is not among them:
  the value tree it walks is declared outside the sources. For \<open>FlushTo\<close> the sequence
  goes on with the writer; what the stream received is the second component of
  \<open>FlushTo\<close> itself.
\<close>

datatype call =
    C_WriteString string | C_WriteString_hem string EHtmlEscapeMode
  | C_WriteInt "32 word" | C_WriteLongLong "64 word" | C_WriteULongLong "64 word"
  | C_WriteFloat TFloat "EFloatToStringMode option" "int option"
  | C_WriteDouble TFloat "EFloatToStringMode option" "int option"
  | C_WriteBool bool | C_WriteNull
  | C_BeginList | C_EndList | C_BeginObject | C_EndObject
  | C_WriteKey string | C_WriteKey_hem string EHtmlEscapeMode
  | C_UnsafeWriteKey string | C_CompatWriteKeyWithoutQuotes string
  | C_SetIndentSpaces int | C_SetWriteNanAsString "bool option"
  | C_UnsafeWriteValue string | C_UnsafeWritePair string | C_UnsafeWriteRawBytes string
  | C_Reset TBufState | C_FlushTo string

fun perform ::
  "(int \<Rightarrow> int \<Rightarrow> EFloatToStringMode \<Rightarrow> int \<Rightarrow> string) \<Rightarrow> TBuf \<Rightarrow> call \<Rightarrow> TError + TBuf" where
  "perform fmt b (C_WriteString s) = WriteString b s"
| "perform fmt b (C_WriteString_hem s hem) = WriteString_hem b s hem"
| "perform fmt b (C_WriteInt i) = WriteInt b i"
| "perform fmt b (C_WriteLongLong i) = WriteLongLong b i"
| "perform fmt b (C_WriteULongLong i) = WriteULongLong b i"
| "perform fmt b (C_WriteFloat f mode ndigits) = WriteFloat b fmt f mode ndigits"
| "perform fmt b (C_WriteDouble f mode ndigits) = WriteDouble b fmt f mode ndigits"
| "perform fmt b (C_WriteBool v) = WriteBool b v"
| "perform fmt b C_WriteNull = WriteNull b"
| "perform fmt b C_BeginList = BeginList b"
| "perform fmt b C_EndList = EndList b"
| "perform fmt b C_BeginObject = BeginObject b"
| "perform fmt b C_EndObject = EndObject b"
| "perform fmt b (C_WriteKey key) = WriteKey b key"
| "perform fmt b (C_WriteKey_hem key hem) = WriteKey_hem b key hem"
| "perform fmt b (C_UnsafeWriteKey key) = UnsafeWriteKey b key"
| "perform fmt b (C_CompatWriteKeyWithoutQuotes key) = CompatWriteKeyWithoutQuotes b key"
| "perform fmt b (C_SetIndentSpaces spaces) = Inr (SetIndentSpaces b spaces)"
| "perform fmt b (C_SetWriteNanAsString flag) = Inr (SetWriteNanAsString b flag)"
| "perform fmt b (C_UnsafeWriteValue s) = UnsafeWriteValue b s"
| "perform fmt b (C_UnsafeWritePair s) = UnsafeWritePair b s"
| "perform fmt b (C_UnsafeWriteRawBytes s) = Inr (UnsafeWriteRawBytes b s)"
| "perform fmt b (C_Reset from) = Inr (Reset b from)"
| "perform fmt b (C_FlushTo stream) = map_sum id fst (FlushTo b stream)"

fun run ::
  "(int \<Rightarrow> int \<Rightarrow> EFloatToStringMode \<Rightarrow> int \<Rightarrow> string) \<Rightarrow> TBuf \<Rightarrow> call list \<Rightarrow> TError + TBuf" where
  "run fmt b [] = Inr b"
| "run fmt b (c # cs) = (case perform fmt b c of Inl e \<Rightarrow> Inl e | Inr b' \<Rightarrow> run fmt b' cs)"

section \<open>Properties\<close>

subsection \<open>The examples of the specification\<close>

text \<open>
  The modelled writer on the two call sequences that section 8 of the specification
  gives with their results: the object with the members \<open>a\<close> and \<open>b\<close> built call by
  call without indentation, and \<open>EndList\<close> called while the innermost open construct is
  an object.
\<close>

lemma spec_example_5:
  "map_sum id Stream
     (and_then (and_then (and_then (and_then (and_then (and_then (and_then (and_then (and_then
        (BeginObject (TBuf_new HEM_DONT_ESCAPE_HTML None))
        (\<lambda>b. WriteKey b ''a'')) (\<lambda>b. WriteInt b 1)) (\<lambda>b. WriteKey b ''b'')) BeginList)
        (\<lambda>b. WriteInt b 1)) (\<lambda>b. WriteInt b 2)) (\<lambda>b. WriteInt b 3)) EndList) EndObject)
   = Inr (CHR ''{'' # CHR 0x22 # CHR ''a'' # CHR 0x22 # '':1,'' @
          CHR 0x22 # CHR ''b'' # CHR 0x22 # '':[1,2,3]}'')"
  by code_simp

lemma spec_example_8:
  "and_then (BeginObject (TBuf_new HEM_DONT_ESCAPE_HTML None)) EndList = Inl TError"
  by code_simp


subsection \<open>Default arguments\<close>

text \<open>
  Claim C9. A \<open>TBuf\<close> constructed with no arguments receives the escape mode
  \<open>HEM_DONT_ESCAPE_HTML\<close> and the null stream pointer, which selects the internally owned
  buffer; \<open>WriteFloat\<close> called with the value alone formats with \<open>PREC_NDIGITS\<close> and 6
  digits, \<open>WriteDouble\<close> with \<open>PREC_NDIGITS\<close> and 10 digits.
\<close>

theorem defaults_of_omitted_arguments:
  "TBuf_args None None = (HEM_DONT_ESCAPE_HTML, None) \<and>
   WriteFloat_args None None = (PREC_NDIGITS, 6) \<and>
   WriteDouble_args None None = (PREC_NDIGITS, 10)"
  by (simp add: TBuf_args_def WriteFloat_args_def WriteDouble_args_def)

subsection \<open>KeyExpected\<close>

text \<open>
  Claim C10. For every writer whose context stack is not empty, \<open>KeyExpected()\<close> returns
  true if and only if the top of the stack is \<open>JE_OBJECT\<close>, which is exactly when the
  grammar permits a key as the next token, and the call leaves the writer as it was.
\<close>

theorem KeyExpected_iff_top_is_object:
  "Stack b \<noteq> [] \<Longrightarrow>
     fst (KeyExpected_call b) = Some (last (Stack b) = JE_OBJECT) \<and>
     (fst (KeyExpected_call b) = Some True) = (spec_step (Stack b) M_WriteKey \<noteq> None) \<and>
     snd (KeyExpected_call b) = b"
  by (simp add: KeyExpected_def KeyExpected_call_def spec_step_def is_value_write_def
      is_key_write_def)

theorem KeyExpected_iff_top_is_object_witness:
  "Stack \<lparr>NeedComma = False, NeedNewline = False, Stack = [JE_OUTER_SPACE, JE_OBJECT],
      Stream = ''{'', StringStream = True, Keys = [], EscapeMode = HEM_DONT_ESCAPE_HTML,
      IndentSpaces = 0, WriteNanAsString = False\<rparr> \<noteq> [] \<and>
   fst (KeyExpected_call \<lparr>NeedComma = False, NeedNewline = False,
      Stack = [JE_OUTER_SPACE, JE_OBJECT],
      Stream = ''{'', StringStream = True, Keys = [], EscapeMode = HEM_DONT_ESCAPE_HTML,
      IndentSpaces = 0, WriteNanAsString = False\<rparr>) = Some True"
  using KeyExpected_iff_top_is_object [of "\<lparr>NeedComma = False, NeedNewline = False,
      Stack = [JE_OUTER_SPACE, JE_OBJECT],
      Stream = ''{'', StringStream = True, Keys = [], EscapeMode = HEM_DONT_ESCAPE_HTML,
      IndentSpaces = 0, WriteNanAsString = False\<rparr>"]
  by simp

subsection \<open>The handle after a key\<close>

lemma calls_append:
  "calls r (xs @ ys) = (case calls r xs of None \<Rightarrow> None | Some r' \<Rightarrow> calls r' ys)"
  by (induction xs arbitrary: r) (auto split: option.splits)

lemma member_EndList: "member r M_EndList = Some r' \<Longrightarrow> r' = TBuf_ref"
  by (cases r) (auto simp: TAfterColonContext_method_def)

lemma member_EndObject: "member r M_EndObject = Some r' \<Longrightarrow> r' = TBuf_ref"
  by (cases r) (auto simp: TAfterColonContext_method_def)

lemma calls_closed:
  "calls r0 (ms @ [M_EndList]) = Some r \<Longrightarrow> r = TBuf_ref"
  "calls r0 (ms @ [M_EndObject]) = Some r \<Longrightarrow> r = TBuf_ref"
  by (auto simp: calls_append split: option.splits dest: member_EndList member_EndObject)

text \<open>
  Claim C2, as the header has it. Every key-writing operation, of a \<open>TPairContext\<close> and
  of the writer, returns a \<open>TAfterColonContext\<close>. The \<open>TAfterColonContext\<close> offers
  the value-writing operations, except the call forms \<open>UnsafeWriteValue(s, len)\<close>,
  \<open>WriteFloat(f, mode)\<close> and \<open>WriteDouble(d, mode)\<close>, and \<open>BeginList\<close> and \<open>BeginObject\<close>,
  and nothing else. Each value-writing operation called on it returns a
  \<open>TPairContext\<close>. \<open>BeginList\<close> returns a \<open>TValueContext\<close> and \<open>BeginObject\<close> a
  \<open>TPairContext\<close> for the nested construct, and every chain of calls that begins the
  nested construct on the handle and ends with its \<open>EndList\<close> or \<open>EndObject\<close> returns
  the writer itself (\<open>TBuf&\<close>), not a \<open>TPairContext\<close>.
\<close>

theorem after_colon_handle_members:
  "(TAfterColonContext_method m \<noteq> None) =
     ((is_value_write m \<and>
       m \<notin> set [M_UnsafeWriteValue_len, M_WriteFloat_mode, M_WriteDouble_mode]) \<or>
      m = M_BeginList \<or> m = M_BeginObject) \<and>
   (is_key_write m \<longrightarrow>
      TPairContext_method m = Some TAfterColonContext \<and>
      TBuf_method m = Some TAfterColonContext) \<and>
   (is_value_write m \<and> TAfterColonContext_method m = Some r \<longrightarrow> r = TPairContext) \<and>
   TAfterColonContext_method M_BeginList = Some TValueContext \<and>
   TAfterColonContext_method M_BeginObject = Some TPairContext \<and>
   calls TAfterColonContext [M_BeginList, M_EndList] = Some TBuf_ref \<and>
   calls TAfterColonContext [M_BeginObject, M_EndObject] = Some TBuf_ref \<and>
   (calls TAfterColonContext (M_BeginList # ms @ [M_EndList]) = Some r' \<longrightarrow> r' = TBuf_ref) \<and>
   (calls TAfterColonContext (M_BeginObject # ms @ [M_EndObject]) = Some r' \<longrightarrow> r' = TBuf_ref)"
proof -
  have offered: "(TAfterColonContext_method m \<noteq> None) =
     ((is_value_write m \<and>
       m \<notin> set [M_UnsafeWriteValue_len, M_WriteFloat_mode, M_WriteDouble_mode]) \<or>
      m = M_BeginList \<or> m = M_BeginObject)"
    by (cases m) (simp_all add: TAfterColonContext_method_def is_value_write_def)
  have keys: "TPairContext_method m = Some TAfterColonContext"
    "TBuf_method m = Some TAfterColonContext" if "is_key_write m"
    using that by (cases m; simp add: is_key_write_def)+
  have returned: "r = TPairContext"
    if "is_value_write m" "TAfterColonContext_method m = Some r"
    using that by (cases m) (simp_all add: TAfterColonContext_method_def is_value_write_def)
  have nested: "TAfterColonContext_method M_BeginList = Some TValueContext"
    "TAfterColonContext_method M_BeginObject = Some TPairContext"
    "calls TAfterColonContext [M_BeginList, M_EndList] = Some TBuf_ref"
    "calls TAfterColonContext [M_BeginObject, M_EndObject] = Some TBuf_ref"
    by (simp_all add: TAfterColonContext_method_def)
  have closed: "r' = TBuf_ref"
    if "calls TAfterColonContext (M_BeginList # ms @ [M_EndList]) = Some r' \<or>
        calls TAfterColonContext (M_BeginObject # ms @ [M_EndObject]) = Some r'"
    using that calls_closed(1) [of TAfterColonContext "M_BeginList # ms" r']
      calls_closed(2) [of TAfterColonContext "M_BeginObject # ms" r']
    by auto
  from offered keys returned nested closed show ?thesis
    by blast
qed

theorem after_colon_handle_members_witness:
  "is_key_write M_WriteKey \<and> TPairContext_method M_WriteKey = Some TAfterColonContext \<and>
   is_value_write M_WriteInt \<and> TAfterColonContext_method M_WriteInt = Some TPairContext \<and>
   calls TAfterColonContext (M_BeginList # [M_WriteInt, M_WriteNull] @ [M_EndList]) = Some TBuf_ref \<and>
   calls TAfterColonContext (M_BeginObject # [M_WriteKey, M_WriteInt] @ [M_EndObject]) = Some TBuf_ref"
proof -
  have chains:
    "calls TAfterColonContext (M_BeginList # [M_WriteInt, M_WriteNull] @ [M_EndList]) \<noteq> None"
    "calls TAfterColonContext (M_BeginObject # [M_WriteKey, M_WriteInt] @ [M_EndObject]) \<noteq> None"
    by (simp_all add: TAfterColonContext_method_def)
  have scalar: "is_value_write M_WriteInt" "TAfterColonContext_method M_WriteInt \<noteq> None"
    "is_key_write M_WriteKey"
    by (simp_all add: is_value_write_def is_key_write_def TAfterColonContext_method_def)
  from chains scalar
    after_colon_handle_members [where m = M_WriteInt and ms = "[M_WriteInt, M_WriteNull]"]
    after_colon_handle_members [where m = M_WriteInt and ms = "[M_WriteKey, M_WriteInt]"]
    after_colon_handle_members [where m = M_WriteKey]
  show ?thesis
    by blast
qed

text \<open>
  The claim as stated fails in two ways. A nested value does not give the caller a
  \<open>TPairContext\<close>: the key's value \<open>[]\<close> or \<open>{}\<close>, begun on the handle and closed on the
  handle that \<open>BeginList\<close> or \<open>BeginObject\<close> returned, leaves the caller with a \<open>TBuf&\<close>.
  And the handle does not offer every value-writing call that the writer admits.
\<close>

theorem nested_value_returns_writer:
  "calls TAfterColonContext [M_BeginList, M_EndList] \<noteq> Some TPairContext \<and>
   calls TAfterColonContext [M_BeginObject, M_EndObject] \<noteq> Some TPairContext \<and>
   is_value_write M_UnsafeWriteValue_len \<and>
   TBuf_method M_UnsafeWriteValue_len = Some T_void \<and>
   TAfterColonContext_method M_UnsafeWriteValue_len = None \<and>
   is_value_write M_WriteFloat_mode \<and>
   TBuf_method M_WriteFloat_mode = Some TValueContext \<and>
   TAfterColonContext_method M_WriteFloat_mode = None \<and>
   is_value_write M_WriteDouble_mode \<and>
   TBuf_method M_WriteDouble_mode = Some TValueContext \<and>
   TAfterColonContext_method M_WriteDouble_mode = None"
  by (simp add: TAfterColonContext_method_def is_value_write_def)

subsection \<open>The handles and the grammar\<close>

lemma handle_members:
  "(TValueContext_method m \<noteq> None) =
     ((is_value_write m \<and>
       m \<notin> set [M_UnsafeWriteValue_len, M_WriteFloat_mode, M_WriteDouble_mode]) \<or>
      m \<in> set [M_BeginList, M_BeginObject, M_EndList, M_Str])"
  "(TPairContext_method m \<noteq> None) =
     (is_key_write m \<or> m = M_UnsafeWritePair \<or> m = M_EndObject)"
  by (cases m; simp add: is_value_write_def is_key_write_def)+

lemma handle_returns:
  "is_handle h \<Longrightarrow> member h m = Some h' \<Longrightarrow>
     h' = (if m = M_EndList \<or> m = M_EndObject then TBuf_ref
           else if m = M_Str then T_TString
           else if m = M_BeginList then TValueContext
           else if m = M_BeginObject \<or> m = M_UnsafeWritePair then TPairContext
           else if is_key_write m then TAfterColonContext
           else if h = TAfterColonContext then TPairContext
           else TValueContext)"
  by (cases h; cases m)
     (simp_all add: is_handle_def TAfterColonContext_method_def is_key_write_def)

lemma writer_returns_handle:
  "(\<exists>h. TBuf_method m = Some h \<and> is_handle h) =
     ((is_value_write m \<and> m \<notin> set [M_UnsafeWriteValue, M_UnsafeWriteValue_len]) \<or>
      m = M_BeginList \<or> m = M_BeginObject \<or> m = M_UnsafeWritePair \<or> is_key_write m)"
  by (cases m) (simp_all add: is_handle_def is_value_write_def is_key_write_def)

lemma writer_returns:
  "TBuf_method m = Some r \<Longrightarrow> is_handle r \<Longrightarrow>
     r = (if is_key_write m then TAfterColonContext
          else if m = M_BeginObject \<or> m = M_UnsafeWritePair then TPairContext
          else TValueContext)"
  by (cases m) (simp_all add: is_handle_def is_key_write_def)

lemma writer_call_agrees:
  "member TBuf_ref m = Some h \<Longrightarrow> is_handle h \<Longrightarrow> spec_step st m = Some st' \<Longrightarrow>
     \<not> (is_value_write m \<and> last st = JE_PAIR) \<Longrightarrow> agrees h st'"
  by (cases m)
     (auto simp: is_handle_def spec_step_def is_value_write_def is_key_write_def
        spec_value_allowed_def spec_end_value_def split: if_splits)

lemma handle_step:
  assumes "is_handle h" "agrees h st" "member h m = Some h'"
    and "\<not> (m = M_EndList \<and> last st = JE_OUTER_SPACE)"
  shows "\<exists>st'. spec_step st m = Some st' \<and> (is_handle h' \<longrightarrow> agrees h' st')"
  using assms
  by (cases h; cases m)
     (auto simp: is_handle_def TAfterColonContext_method_def spec_step_def is_value_write_def
        is_key_write_def spec_value_allowed_def spec_end_value_def)

lemma threaded_from_writer: "threaded TBuf_ref ms \<Longrightarrow> ms = []"
  by (cases ms) (simp_all add: is_handle_def)

lemma threaded_chain:
  "agrees h st \<Longrightarrow> threaded h ms \<Longrightarrow>
     (\<exists>st'. spec_run st ms = Some st') \<or>
     (\<exists>pre st'. ms = pre @ [M_EndList] \<and> spec_run st pre = Some st' \<and>
        last st' = JE_OUTER_SPACE)"
proof (induction ms arbitrary: h st)
  case Nil
  then show ?case by simp
next
  case (Cons m ms)
  from Cons.prems(2) obtain h' where h: "is_handle h" "member h m = Some h'" "threaded h' ms"
    by (auto split: option.splits)
  show ?case
  proof (cases "m = M_EndList \<and> last st = JE_OUTER_SPACE")
    case True
    with h have "h' = TBuf_ref"
      by (auto dest: handle_returns)
    with h(3) have "ms = []"
      by (simp add: threaded_from_writer)
    with True show ?thesis
      by auto
  next
    case False
    from handle_step [OF h(1) Cons.prems(1) h(2) False]
    obtain st1 where st1: "spec_step st m = Some st1" "is_handle h' \<longrightarrow> agrees h' st1"
      by blast
    show ?thesis
    proof (cases ms)
      case Nil
      with st1 show ?thesis by simp
    next
      case (Cons m' ms')
      with h(3) have "is_handle h'" by simp
      with st1 have "agrees h' st1" by simp
      from Cons.IH [OF this h(3)] show ?thesis
      proof
        assume "\<exists>st'. spec_run st1 ms = Some st'"
        with st1 show ?thesis by simp
      next
        assume "\<exists>pre st'. ms = pre @ [M_EndList] \<and> spec_run st1 pre = Some st' \<and>
          last st' = JE_OUTER_SPACE"
        then obtain pre st' where "ms = pre @ [M_EndList]" "spec_run st1 pre = Some st'"
          "last st' = JE_OUTER_SPACE"
          by blast
        with st1 have "m # ms = (m # pre) @ [M_EndList] \<and> spec_run st (m # pre) = Some st' \<and>
          last st' = JE_OUTER_SPACE"
          by simp
        then show ?thesis by blast
      qed
    qed
  qed
qed

text \<open>
  Claim C3, as the header has it. \<open>TValueContext\<close> offers the value-writing operations,
  except the call forms \<open>UnsafeWriteValue(s, len)\<close>, \<open>WriteFloat(f, mode)\<close> and
  \<open>WriteDouble(d, mode)\<close>, and \<open>BeginList\<close>, \<open>BeginObject\<close>, \<open>EndList\<close> and \<open>Str\<close>, and
  nothing else; \<open>TPairContext\<close> offers exactly the key-writing operations,
  \<open>UnsafeWritePair\<close> and \<open>EndObject\<close>. A call on a handle returns a handle, the one
  the theorem names, unless it is \<open>EndList\<close> or \<open>EndObject\<close>, which return the writer
  itself (\<open>TBuf&\<close>), or \<open>Str\<close>. On the writer, the value-writing operations other than
  \<open>UnsafeWriteValue\<close>, the key-writing operations, \<open>BeginList\<close>, \<open>BeginObject\<close> and
  \<open>UnsafeWritePair\<close> return a handle, the one the theorem names, and no other operation
  does; \<open>EndList\<close> and \<open>EndObject\<close> return the writer. The handle returned by a call on
  the writer that the grammar permits stands for the stack the call leaves, unless the
  call writes the value of a pending pair. A call on a handle that stands for the stack
  is permitted by the grammar, and the handle it returns stands for the new stack, with
  one exception: \<open>EndList\<close> on a \<open>TValueContext\<close> held at the top level. So in a chain
  of calls threaded through handles the grammar permits every call, unless the chain
  ends with such an \<open>EndList\<close>.
\<close>

theorem handles_follow_grammar:
  "(TValueContext_method m \<noteq> None) =
     ((is_value_write m \<and>
       m \<notin> set [M_UnsafeWriteValue_len, M_WriteFloat_mode, M_WriteDouble_mode]) \<or>
      m \<in> set [M_BeginList, M_BeginObject, M_EndList, M_Str]) \<and>
   (TPairContext_method m \<noteq> None) =
     (is_key_write m \<or> m = M_UnsafeWritePair \<or> m = M_EndObject) \<and>
   (is_handle h \<and> member h m = Some h' \<longrightarrow>
      h' = (if m = M_EndList \<or> m = M_EndObject then TBuf_ref
            else if m = M_Str then T_TString
            else if m = M_BeginList then TValueContext
            else if m = M_BeginObject \<or> m = M_UnsafeWritePair then TPairContext
            else if is_key_write m then TAfterColonContext
            else if h = TAfterColonContext then TPairContext
            else TValueContext)) \<and>
   (\<exists>r. TBuf_method m = Some r \<and> is_handle r) =
     ((is_value_write m \<and> m \<notin> set [M_UnsafeWriteValue, M_UnsafeWriteValue_len]) \<or>
      m = M_BeginList \<or> m = M_BeginObject \<or> m = M_UnsafeWritePair \<or> is_key_write m) \<and>
   (TBuf_method m = Some h' \<and> is_handle h' \<longrightarrow>
      h' = (if is_key_write m then TAfterColonContext
            else if m = M_BeginObject \<or> m = M_UnsafeWritePair then TPairContext
            else TValueContext)) \<and>
   TBuf_method M_EndList = Some TBuf_ref \<and>
   TBuf_method M_EndObject = Some TBuf_ref \<and>
   (member TBuf_ref m = Some h' \<and> is_handle h' \<and> spec_step st m = Some st' \<and>
    \<not> (is_value_write m \<and> last st = JE_PAIR) \<longrightarrow>
      agrees h' st') \<and>
   (is_handle h \<and> agrees h st \<and> member h m = Some h' \<and>
    \<not> (m = M_EndList \<and> last st = JE_OUTER_SPACE) \<longrightarrow>
      (\<exists>st'. spec_step st m = Some st' \<and> (is_handle h' \<longrightarrow> agrees h' st'))) \<and>
   (agrees h st \<and> threaded h ms \<longrightarrow>
      (\<exists>st'. spec_run st ms = Some st') \<or>
      (\<exists>pre st'. ms = pre @ [M_EndList] \<and> spec_run st pre = Some st' \<and>
         last st' = JE_OUTER_SPACE))"
proof -
  have writer_ends: "TBuf_method M_EndList = Some TBuf_ref" "TBuf_method M_EndObject = Some TBuf_ref"
    by simp_all
  from writer_ends handle_members [of m] handle_returns [of h m h'] writer_returns_handle [of m]
    writer_returns [of m h'] writer_call_agrees [of m h' st st'] handle_step [of h st m h']
    threaded_chain [of h st ms]
  show ?thesis
    by blast
qed

theorem handles_follow_grammar_witness:
  "is_handle TPairContext \<and> agrees TPairContext [JE_OUTER_SPACE, JE_OBJECT] \<and>
   member TPairContext M_WriteKey = Some TAfterColonContext \<and>
   (\<exists>st'. spec_step [JE_OUTER_SPACE, JE_OBJECT] M_WriteKey = Some st' \<and>
      agrees TAfterColonContext st') \<and>
   threaded TPairContext [M_WriteKey, M_WriteInt, M_EndObject] \<and>
   (\<exists>st'. spec_run [JE_OUTER_SPACE, JE_OBJECT] [M_WriteKey, M_WriteInt, M_EndObject] = Some st') \<and>
   member TBuf_ref M_BeginObject = Some TPairContext \<and>
   spec_step [JE_OUTER_SPACE] M_BeginObject = Some [JE_OUTER_SPACE, JE_OBJECT] \<and>
   agrees TPairContext [JE_OUTER_SPACE, JE_OBJECT]"
proof -
  have given: "is_handle TPairContext" "agrees TPairContext [JE_OUTER_SPACE, JE_OBJECT]"
    "member TPairContext M_WriteKey = Some TAfterColonContext"
    "is_handle TAfterColonContext"
    "threaded TPairContext [M_WriteKey, M_WriteInt, M_EndObject]"
    "member TBuf_ref M_BeginObject = Some TPairContext"
    "spec_step [JE_OUTER_SPACE] M_BeginObject = Some [JE_OUTER_SPACE, JE_OBJECT]"
    by (simp_all add: is_handle_def TAfterColonContext_method_def spec_step_def
        is_value_write_def spec_value_allowed_def)
  have not_list: "[M_WriteKey, M_WriteInt, M_EndObject] \<noteq> pre @ [M_EndList]" for pre
  proof
    assume "[M_WriteKey, M_WriteInt, M_EndObject] = pre @ [M_EndList]"
    then have "last [M_WriteKey, M_WriteInt, M_EndObject] = last (pre @ [M_EndList])"
      by (rule arg_cong)
    then show False by simp
  qed
  from given not_list
    handles_follow_grammar [where m = M_WriteKey and h = TPairContext
      and h' = TAfterColonContext and st = "[JE_OUTER_SPACE, JE_OBJECT]"
      and ms = "[M_WriteKey, M_WriteInt, M_EndObject]"]
    handles_follow_grammar [where m = M_BeginObject and h' = TPairContext
      and st = "[JE_OUTER_SPACE]" and st' = "[JE_OUTER_SPACE, JE_OBJECT]"]
  show ?thesis
    by auto
qed

text \<open>
  The claim as stated fails: \<open>buf.WriteInt(1).EndList()\<close> compiles, the second call being
  made on the \<open>TValueContext\<close> that the first returned and that stands for the top
  level, and the grammar does not permit it, no list being open. What \<open>EndList\<close> returns
  is the writer and not a handle: it offers \<open>WriteKey\<close>, which the grammar does not
  permit at the top level. And \<open>WriteInt\<close> called on the writer after a key returns a
  \<open>TValueContext\<close> although the object then expects a key: the handle offers \<open>WriteInt\<close>,
  which the grammar does not permit there.
\<close>

theorem handle_chain_not_in_grammar:
  "member TBuf_ref M_WriteInt = Some TValueContext \<and>
   member TValueContext M_EndList = Some TBuf_ref \<and>
   calls TBuf_ref [M_WriteInt, M_EndList] = Some TBuf_ref \<and>
   spec_run [JE_OUTER_SPACE] [M_WriteInt, M_EndList] = None \<and>
   spec_step [JE_OUTER_SPACE] M_WriteInt = Some [JE_OUTER_SPACE] \<and>
   agrees TValueContext [JE_OUTER_SPACE] \<and>
   threaded TValueContext [M_EndList] \<and>
   spec_step [JE_OUTER_SPACE] M_EndList = None \<and>
   \<not> is_handle TBuf_ref \<and>
   member TBuf_ref M_WriteKey = Some TAfterColonContext \<and>
   spec_step [JE_OUTER_SPACE] M_WriteKey = None \<and>
   spec_step [JE_OUTER_SPACE, JE_OBJECT, JE_PAIR] M_WriteInt = Some [JE_OUTER_SPACE, JE_OBJECT] \<and>
   \<not> agrees TValueContext [JE_OUTER_SPACE, JE_OBJECT] \<and>
   member TValueContext M_WriteInt = Some TValueContext \<and>
   spec_step [JE_OUTER_SPACE, JE_OBJECT] M_WriteInt = None"
  by (simp add: spec_step_def is_value_write_def is_key_write_def spec_value_allowed_def
      spec_end_value_def is_handle_def)

subsection \<open>Escaping and reading back\<close>





lemma escape_char_nonempty: "escape_char hem c \<noteq> []"
  by (auto simp: escape_char_def EscapedWriteChar_def WriteHexEscape_def
      split: option.splits EHtmlEscapeMode.splits if_splits)

















subsection \<open>Numbers that are not finite\<close>

lemma bare_string_special:
  "\<not> IsValidFloat f \<Longrightarrow> bare_string (FloatToString fmt f mode nd) hem = FloatToString fmt f mode nd"
  by (cases f) (simp_all add: IsValidFloat_def bare_string_def escape_char_def EscapedWriteChar_def)

lemma WriteString_hem_value:
  assumes "KeyExpected b = Some False"
  shows "\<exists>b'. WriteString_hem b s hem = Inr b' \<and>
           Stream b' = Stream (WriteComma b) @ CHR 0x22 # bare_string s hem @ [CHR 0x22] \<and>
           Stack b' = spec_end_value (Stack b) \<and> NeedComma b' \<and> NeedNewline b' \<and>
           StringStream b' = StringStream b \<and> EscapeMode b' = EscapeMode b \<and>
           IndentSpaces b' = IndentSpaces b \<and> WriteNanAsString b' = WriteNanAsString b"
  using assms
  by (auto simp: WriteString_hem_def BeginValue_def EndValue_def StackTop_def StackPop_def
      WriteBareString_def RawWriteChar_def UnsafeWriteRawBytes_def WriteComma_def Let_def
      PrintIndentation_def KeyExpected_def spec_end_value_def split: if_splits)

text \<open>
  Claim C6. For every \<open>float\<close> or \<open>double\<close> argument that is not finite, \<open>WriteFloat\<close> and
  \<open>WriteDouble\<close> fail with the error when \<open>WriteNanAsString\<close> is off. When it is on they
  do what \<open>WriteString\<close> does with the rendering of the value, one of \<open>nan\<close>, \<open>inf\<close> and
  \<open>-inf\<close>: where a value may be written the call succeeds, the stream receives the
  separator and the rendering between quotes, and the writer is left as after any other
  value.
\<close>

theorem non_finite_float_policy:
  assumes "\<not> IsValidFloat f"
  shows "(\<not> WriteNanAsString b \<longrightarrow>
            WriteFloat b fmt f mode nd = Inl TError \<and> WriteDouble b fmt f mode nd = Inl TError) \<and>
         (WriteNanAsString b \<longrightarrow>
            WriteFloat b fmt f mode nd =
              WriteString b (FloatToString fmt f (fst (WriteFloat_args mode nd)) (snd (WriteFloat_args mode nd))) \<and>
            WriteDouble b fmt f mode nd =
              WriteString b (FloatToString fmt f (fst (WriteDouble_args mode nd)) (snd (WriteDouble_args mode nd)))) \<and>
         FloatToString fmt f m n \<in> set [''nan'', ''inf'', ''-inf''] \<and>
         (WriteNanAsString b \<and> KeyExpected b = Some False \<longrightarrow>
            (\<exists>b'. WriteDouble b fmt f mode nd = Inr b' \<and>
               Stream b' = Stream (WriteComma b) @ CHR 0x22 # FloatToString fmt f m n @ [CHR 0x22] \<and>
               Stack b' = spec_end_value (Stack b) \<and> NeedComma b' \<and> NeedNewline b' \<and>
               WriteNanAsString b'))"
proof -
  have same_text: "FloatToString fmt f m' n' = FloatToString fmt f m n" for m' n'
    using assms by (cases f) (simp_all add: IsValidFloat_def)
  have special: "FloatToString fmt f m n \<in> set [''nan'', ''inf'', ''-inf'']"
    using assms by (cases f) (simp_all add: IsValidFloat_def)
  have policy_on: "\<exists>b'. WriteString b (FloatToString fmt f m n) = Inr b' \<and>
               Stream b' = Stream (WriteComma b) @ CHR 0x22 # FloatToString fmt f m n @ [CHR 0x22] \<and>
               Stack b' = spec_end_value (Stack b) \<and> NeedComma b' \<and> NeedNewline b' \<and>
               WriteNanAsString b'"
    if "WriteNanAsString b" "KeyExpected b = Some False"
    using WriteString_hem_value [OF that(2), of "FloatToString fmt f m n" "EscapeMode b"] that(1)
      bare_string_special [OF assms, of fmt m n "EscapeMode b"]
    by (auto simp: WriteString_def)
  have wf: "WriteFloat b fmt f mode nd =
      (if WriteNanAsString b
       then WriteString b (FloatToString fmt f (fst (WriteFloat_args mode nd)) (snd (WriteFloat_args mode nd)))
       else Inl TError)"
    using assms by (simp add: WriteFloat_def WriteFloatImpl_def)
  have wd: "WriteDouble b fmt f mode nd =
      (if WriteNanAsString b
       then WriteString b (FloatToString fmt f (fst (WriteDouble_args mode nd)) (snd (WriteDouble_args mode nd)))
       else Inl TError)"
    using assms by (simp add: WriteDouble_def WriteFloatImpl_def)
  have wd': "WriteNanAsString b \<Longrightarrow> WriteDouble b fmt f mode nd = WriteString b (FloatToString fmt f m n)"
    using wd same_text [of "fst (WriteDouble_args mode nd)" "snd (WriteDouble_args mode nd)"]
    by simp
  show ?thesis
    using special policy_on wd'
    by (simp add: wf wd del: FloatToString.simps)
qed

theorem non_finite_float_policy_witness:
  "\<not> IsValidFloat NaN \<and>
   WriteDouble (TBuf_new HEM_DONT_ESCAPE_HTML None) (\<lambda>m e mode nd. []) NaN None None = Inl TError \<and>
   (\<exists>b'. WriteDouble (SetWriteNanAsString (TBuf_new HEM_DONT_ESCAPE_HTML None) None)
            (\<lambda>m e mode nd. []) NaN None None = Inr b' \<and>
      Stream b' = CHR 0x22 # ''nan'' @ [CHR 0x22] \<and> Stack b' = [JE_OUTER_SPACE])"
proof -
  have policy_off:
    "WriteDouble (TBuf_new HEM_DONT_ESCAPE_HTML None) (\<lambda>m e mode nd. []) NaN None None = Inl TError"
    using non_finite_float_policy [of NaN "TBuf_new HEM_DONT_ESCAPE_HTML None"
        "\<lambda>m e mode nd. []" None None PREC_NDIGITS 10]
    by (simp add: IsValidFloat_def TBuf_new_def)
  let ?b = "SetWriteNanAsString (TBuf_new HEM_DONT_ESCAPE_HTML None) None"
  have not_finite: "\<not> IsValidFloat NaN"
    by (simp add: IsValidFloat_def)
  have value_allowed: "WriteNanAsString ?b \<and> KeyExpected ?b = Some False"
    by (simp add: TBuf_new_def SetWriteNanAsString_def KeyExpected_def)
  from non_finite_float_policy [OF not_finite, of ?b "\<lambda>m e mode nd. []" None None PREC_NDIGITS 10]
    value_allowed
  obtain b' where written:
    "WriteDouble ?b (\<lambda>m e mode nd. []) NaN None None = Inr b'"
    "Stream b' = Stream (WriteComma ?b) @
       CHR 0x22 # FloatToString (\<lambda>m e mode nd. []) NaN PREC_NDIGITS 10 @ [CHR 0x22]"
    "Stack b' = spec_end_value (Stack ?b)"
    by blast
  have policy_on:
    "\<exists>b'. WriteDouble ?b (\<lambda>m e mode nd. []) NaN None None = Inr b' \<and>
      Stream b' = CHR 0x22 # ''nan'' @ [CHR 0x22] \<and> Stack b' = [JE_OUTER_SPACE]"
    using written
    by (intro exI [of _ b'])
       (simp add: TBuf_new_def SetWriteNanAsString_def WriteComma_def spec_end_value_def)
  from policy_off policy_on show ?thesis
    by (simp add: IsValidFloat_def)
qed

subsection \<open>Snapshots\<close>

text \<open>
  The modelled \<open>State\<close> returns the writer's two flags and its stack as a value:
  resetting any writer to a snapshot gives back exactly the flags and the stack that were
  captured. The modelled \<open>Reset\<close> replaces these three members and nothing else: the
  bytes already in the stream and the configuration stay as they are.
\<close>

lemma State_Reset_snapshot:
  "State b = \<lparr>NeedComma = NeedComma b, NeedNewline = NeedNewline b, Stack = Stack b\<rparr> \<and>
   State (Reset b' (State b)) = State b \<and>
   State (Reset b' s) = s \<and>
   Stream (Reset b' s) = Stream b' \<and>
   StringStream (Reset b' s) = StringStream b' \<and>
   Keys (Reset b' s) = Keys b' \<and>
   EscapeMode (Reset b' s) = EscapeMode b' \<and>
   IndentSpaces (Reset b' s) = IndentSpaces b' \<and>
   WriteNanAsString (Reset b' s) = WriteNanAsString b' \<and>
   Reset b (State b) = b"
  by (simp add: State_def Reset_def)

subsection \<open>The internal buffer\<close>

lemma PrintIndentation_owner: "StringStream (PrintIndentation b closing) = StringStream b"
  by (simp add: PrintIndentation_def UnsafeWriteRawBytes_def)

lemma WriteComma_owner: "StringStream (WriteComma b) = StringStream b"
  by (simp add: WriteComma_def Let_def RawWriteChar_def PrintIndentation_owner)

lemma BeginValue_owner: "BeginValue b = Inr b' \<Longrightarrow> StringStream b' = StringStream b"
  by (auto simp: BeginValue_def WriteComma_owner split: option.splits bool.splits)

lemma BeginKey_owner: "BeginKey b = Inr b' \<Longrightarrow> StringStream b' = StringStream b"
  by (auto simp: BeginKey_def StackPush_def WriteComma_owner split: option.splits bool.splits)

lemma StackPop_owner: "StackPop b = Inr b' \<Longrightarrow> StringStream b' = StringStream b"
  by (auto simp: StackPop_def RawWriteChar_def PrintIndentation_owner
      split: option.splits EJsonEntity.splits)

lemma EndValue_owner: "EndValue b = Inr b' \<Longrightarrow> StringStream b' = StringStream b"
  by (auto simp: EndValue_def dest: StackPop_owner split: if_splits)

lemma CheckAndPop_owner: "CheckAndPop b e = Inr b' \<Longrightarrow> StringStream b' = StringStream b"
  by (auto simp: CheckAndPop_def dest: StackPop_owner split: if_splits)

lemma WriteString_hem_owner:
  "WriteString_hem b s hem = Inr b' \<Longrightarrow> StringStream b' = StringStream b"
  by (auto simp: WriteString_hem_def WriteBareString_def RawWriteChar_def UnsafeWriteRawBytes_def
      split: sum.splits dest!: BeginValue_owner EndValue_owner)

lemma UnsafeWriteValue_owner:
  "UnsafeWriteValue b s = Inr b' \<Longrightarrow> StringStream b' = StringStream b"
  by (auto simp: UnsafeWriteValue_def UnsafeWriteRawBytes_def
      split: sum.splits dest!: BeginValue_owner EndValue_owner)

lemma WriteFloatImpl_owner:
  "WriteFloatImpl b fmt f mode nd = Inr b' \<Longrightarrow> StringStream b' = StringStream b"
  by (auto simp: WriteFloatImpl_def WriteString_def split: if_splits
      dest: WriteString_hem_owner UnsafeWriteValue_owner)

lemma Begin_owner:
  "BeginList b = Inr b' \<Longrightarrow> StringStream b' = StringStream b"
  "BeginObject b = Inr b' \<Longrightarrow> StringStream b' = StringStream b"
  by (auto simp: BeginList_def BeginObject_def StackPush_def RawWriteChar_def
      split: sum.splits dest!: BeginValue_owner)

lemma End_owner:
  "EndList b = Inr b' \<Longrightarrow> StringStream b' = StringStream b"
  "EndObject b = Inr b' \<Longrightarrow> StringStream b' = StringStream b"
  by (auto simp: EndList_def EndObject_def split: sum.splits
      dest!: CheckAndPop_owner EndValue_owner)

lemma Key_owner:
  "WriteKey_hem b k hem = Inr b' \<Longrightarrow> StringStream b' = StringStream b"
  "UnsafeWriteKey b k = Inr b' \<Longrightarrow> StringStream b' = StringStream b"
  "CompatWriteKeyWithoutQuotes b k = Inr b' \<Longrightarrow> StringStream b' = StringStream b"
  "UnsafeWritePair b k = Inr b' \<Longrightarrow> StringStream b' = StringStream b"
  by (auto simp: WriteKey_hem_def UnsafeWriteKey_def CompatWriteKeyWithoutQuotes_def
      UnsafeWritePair_def WriteBareString_def RawWriteChar_def UnsafeWriteRawBytes_def
      WriteComma_owner
      split: sum.splits option.splits bool.splits dest!: BeginKey_owner)

lemma perform_owner: "perform fmt b c = Inr b' \<Longrightarrow> StringStream b' = StringStream b"
  by (cases c)
     (auto simp: WriteString_def WriteInt_def WriteLongLong_def WriteULongLong_def WriteBool_def
        WriteNull_def WriteFloat_def WriteDouble_def WriteKey_def SetIndentSpaces_def
        SetWriteNanAsString_def UnsafeWriteRawBytes_def Reset_def FlushTo_def
        dest: WriteString_hem_owner UnsafeWriteValue_owner WriteFloatImpl_owner Begin_owner
          End_owner Key_owner split: if_splits)

lemma run_owner: "run fmt b cs = Inr b' \<Longrightarrow> StringStream b' = StringStream b"
  by (induction cs arbitrary: b) (auto split: sum.splits dest: perform_owner)

text \<open>
  Claim C8. After any sequence of successful calls on a writer constructed without a
  stream, \<open>Str()\<close> returns the accumulated bytes, and \<open>FlushTo(sink)\<close> succeeds, the sink
  receives the accumulated bytes and the internal buffer is empty afterwards. After any
  sequence of successful calls on a writer constructed with a stream, both fail. So
  either succeeds only for a writer constructed without a stream.
\<close>

theorem Str_FlushTo_need_internal_buffer:
  "run fmt (TBuf_new mode stream) cs = Inr b \<Longrightarrow>
     (stream = None \<longrightarrow>
        Str b = Inr (Stream b) \<and>
        FlushTo b sink = Inr (b\<lparr>Stream := []\<rparr>, sink @ Stream b) \<and>
        Str (b\<lparr>Stream := []\<rparr>) = Inr []) \<and>
     (stream \<noteq> None \<longrightarrow> Str b = Inl TError \<and> FlushTo b sink = Inl TError) \<and>
     ((\<exists>r. Str b = Inr r) = (stream = None)) \<and>
     ((\<exists>r. FlushTo b sink = Inr r) = (stream = None))"
proof -
  assume "run fmt (TBuf_new mode stream) cs = Inr b"
  then have "StringStream b = (stream = None)"
    by (auto dest: run_owner simp: TBuf_new_def)
  then show ?thesis
    by (auto simp: Str_def FlushTo_def)
qed

theorem Str_FlushTo_need_internal_buffer_witness:
  "run (\<lambda>m e mode nd. []) (TBuf_new HEM_DONT_ESCAPE_HTML None) [C_BeginList, C_WriteNull, C_EndList] =
     Inr (projr (run (\<lambda>m e mode nd. []) (TBuf_new HEM_DONT_ESCAPE_HTML None)
                   [C_BeginList, C_WriteNull, C_EndList])) \<and>
   Str (projr (run (\<lambda>m e mode nd. []) (TBuf_new HEM_DONT_ESCAPE_HTML None)
                 [C_BeginList, C_WriteNull, C_EndList])) = Inr ''[null]'' \<and>
   map_sum id snd (FlushTo (projr (run (\<lambda>m e mode nd. []) (TBuf_new HEM_DONT_ESCAPE_HTML None)
                 [C_BeginList, C_WriteNull, C_EndList])) ''ab'') = Inr ''ab[null]'' \<and>
   map_sum id (Stream \<circ> fst) (FlushTo (projr (run (\<lambda>m e mode nd. []) (TBuf_new HEM_DONT_ESCAPE_HTML None)
                 [C_BeginList, C_WriteNull, C_EndList])) ''ab'') = Inr [] \<and>
   Str (projr (run (\<lambda>m e mode nd. []) (TBuf_new HEM_DONT_ESCAPE_HTML (Some ''x''))
                 [C_BeginList, C_WriteNull, C_EndList])) = Inl TError \<and>
   FlushTo (projr (run (\<lambda>m e mode nd. []) (TBuf_new HEM_DONT_ESCAPE_HTML (Some ''x''))
                 [C_BeginList, C_WriteNull, C_EndList])) ''ab'' = Inl TError"
proof -
  let ?cs = "[C_BeginList, C_WriteNull, C_EndList]"
  let ?fmt = "\<lambda>(m::int) (e::int) (mode::EFloatToStringMode) (nd::int). ([]::string)"
  have own: "run ?fmt (TBuf_new HEM_DONT_ESCAPE_HTML None) ?cs =
      Inr (projr (run ?fmt (TBuf_new HEM_DONT_ESCAPE_HTML None) ?cs))"
    by code_simp
  have ext: "run ?fmt (TBuf_new HEM_DONT_ESCAPE_HTML (Some ''x'')) ?cs =
      Inr (projr (run ?fmt (TBuf_new HEM_DONT_ESCAPE_HTML (Some ''x'')) ?cs))"
    by code_simp
  have bytes: "Stream (projr (run ?fmt (TBuf_new HEM_DONT_ESCAPE_HTML None) ?cs)) = ''[null]''"
    by code_simp
  from Str_FlushTo_need_internal_buffer [OF own, of "''ab''"]
    Str_FlushTo_need_internal_buffer [OF ext, of "''ab''"] own bytes
  show ?thesis
    by simp
qed

end
